theory Spec2Isabelle
  imports Main
begin

section \<open>The batch client: request routing, coalescing and session propagation\<close>

text \<open>
  A shallow embedding of \<^verbatim>\<open>ZimbraBatchClient\<close> (src/batch-client/index.ts): the
  router \<^verbatim>\<open>jsonRequest\<close>, the two data handlers \<^verbatim>\<open>batchDataHandler\<close> and
  \<^verbatim>\<open>dataHandler\<close>, and the two loaders the constructor builds around them.

  The client is asynchronous. Each promise chain of the source is cut at its suspension
  point: the part that runs when a handler is called (it reads the session and issues
  the transport call) and the part that runs when the transport settles (the
  \<^verbatim>\<open>then\<close> callback). Mutation of \<^verbatim>\<open>this\<close> is explicit state passing, and
  what a callback does to the outside (a write of the session, a call of the registered
  notification handler, the settling of a caller's pending result) is returned as a list
  of effects, in the order the statements run.
\<close>

subsection \<open>Requests\<close>

text \<open>
  An options object has an identity (its reference) besides its fields: the loaders
  remember keys by reference. \<^verbatim>\<open>accountName\<close> is optional, and the router tests it
  for truthiness, so the empty string counts as absent.
\<close>

type_synonym ref = nat

type_synonym pid = nat

record 'b JsonRequestOptions =
  name :: string
  namespace :: "string option"
  body :: "'b option"
  accountName :: "string option"

type_synonym 'b key = "ref \<times> 'b JsonRequestOptions"

definition truthy :: "string option \<Rightarrow> bool" where
  "truthy v = (case v of None \<Rightarrow> False | Some s \<Rightarrow> s \<noteq> [])"

subsection \<open>Replies of the transport\<close>

text \<open>
  The two paths \<^verbatim>\<open>header.context.session.id\<close> and \<^verbatim>\<open>header.context.notify\<close> of a
  resolved value, as \<^verbatim>\<open>get\<close> reads them: a path that is missing reads as undefined.
  An element of \<^verbatim>\<open>notify\<close> is a notification block, an opaque object (\<open>Some n\<close>),
  or a value that is falsy, such as \<^verbatim>\<open>null\<close> (\<open>None\<close>); the handlers test what
  they read at index 0 for truthiness.
\<close>

record 'n hdr =
  session_id :: "string option"
  notify :: "'n option list"

definition get_notify_0 :: "'n hdr \<Rightarrow> 'n option" where
  "get_notify_0 h = (case notify h of [] \<Rightarrow> None | x # _ \<Rightarrow> x)"

text \<open>
  An element of a batch reply is an error value or a response object with a body;
  \<^verbatim>\<open>isError\<close> tells them apart, in the handler and, as \<^verbatim>\<open>instanceof Error\<close>,
  in the loader.
\<close>

datatype ('e, 'b) item = ErrorValue 'e | ResponseValue 'b

fun isError :: "('e, 'b) item \<Rightarrow> bool" where
  "isError (ErrorValue _) = True"
| "isError (ResponseValue _) = False"

record ('e, 'b, 'n) BatchRequestResponse =
  header :: "'n hdr"
  requests :: "('e, 'b) item list"

text \<open>
  What the single transport call resolves with: an error value or a response. The
  handler reads the two header paths of whatever it is given before it asks
  \<^verbatim>\<open>isError\<close>, so an error value has them too; one without a \<^verbatim>\<open>header\<close>
  property has no session id and no notification.
\<close>

datatype ('e, 'b, 'n) RequestResponse = ErrorResolved "'n hdr" 'e | Response "'n hdr" 'b

fun header_of :: "('e, 'b, 'n) RequestResponse \<Rightarrow> 'n hdr" where
  "header_of (ErrorResolved h _) = h"
| "header_of (Response h _) = h"

text \<open>
  What a handler passes to the transport: \<^verbatim>\<open>{requests, sessionId, origin}\<close> to
  \<^verbatim>\<open>batchJsonRequest\<close>, and \<^verbatim>\<open>{...requests[0], sessionId, origin}\<close> to
  \<^verbatim>\<open>jsonRequest\<close> (spreading an undefined first element adds no field).
\<close>

datatype 'b envelope =
    BatchJsonRequest "'b JsonRequestOptions list" string string
  | JsonRequest "'b JsonRequestOptions option" string string

subsection \<open>Effects\<close>

text \<open>
  A pending result is settled once: resolved with a payload, rejected with an error
  value, or rejected with the type error the loader raises itself. The effects of a
  callback are the writes of \<^verbatim>\<open>this.sessionId\<close>, the calls of the registered
  notification handler \<open>h\<close> with a block, and the settlements of pending results.
\<close>

datatype ('e, 'b) settlement = Resolved 'b | Rejected 'e | RejectedTypeError

datatype ('e, 'b, 'n, 'h) effect =
    SessionWrite string
  | Invoke 'h 'n
  | Settle pid "('e, 'b) settlement"

fun isSettle :: "('e, 'b, 'n, 'h) effect \<Rightarrow> bool" where
  "isSettle (Settle _ _) = True"
| "isSettle _ = False"


fun isRejection :: "('e, 'b, 'n, 'h) effect \<Rightarrow> bool" where
  "isRejection (Settle _ (Rejected _)) = True"
| "isRejection (Settle _ RejectedTypeError) = True"
| "isRejection _ = False"

subsection \<open>The loader (package dataloader) and the client\<close>

text \<open>
  The two loaders are instances of \<^verbatim>\<open>DataLoader\<close> of the package dataloader, a
  dependency of the repository: its code is not under src/, and the definitions of this
  theory that bear its names (\<^verbatim>\<open>load\<close>, \<^verbatim>\<open>dispatchQueue\<close>, \<^verbatim>\<open>clear\<close>,
  \<^verbatim>\<open>failedDispatch\<close>, and the callbacks of \<^verbatim>\<open>dispatchQueueBatch\<close>) follow the
  behaviour the package documents. A loader holds its \<^verbatim>\<open>batch\<close> option, the queue of
  keys waiting for the next dispatch, each with the pending result handed to its caller,
  and the memoisation cache from keys to pending results; a key that is an object is
  looked up by reference. The constructor of the client passes no \<^verbatim>\<open>cache\<close> option,
  so the cache is on for both loaders, and \<^verbatim>\<open>batch: false\<close> for the second.
\<close>

record 'b DataLoader =
  batch :: bool
  queue :: "('b key \<times> pid) list"
  promiseCache :: "ref \<Rightarrow> pid option"

record ('b, 'h) ZimbraBatchClient =
  origin :: string
  sessionId :: string
  soapPathname :: string
  batchDataLoader :: "'b DataLoader"
  dataLoader :: "'b DataLoader"
  notificationHandler :: "'h option"

definition new_DataLoader :: "bool \<Rightarrow> 'b DataLoader" where
  "new_DataLoader b = \<lparr>batch = b, queue = [], promiseCache = (\<lambda>_. None)\<rparr>"

text \<open>
  The constructor. \<^verbatim>\<open>DEFAULT_HOSTNAME\<close> and \<^verbatim>\<open>DEFAULT_SOAP_PATHNAME\<close> come from
  the request module and are parameters here; \<^verbatim>\<open>a || b\<close> takes \<^verbatim>\<open>b\<close> when
  \<^verbatim>\<open>a\<close> is falsy.
\<close>

definition or_else :: "string option \<Rightarrow> string \<Rightarrow> string" where
  "or_else v d = (case v of None \<Rightarrow> d | Some s \<Rightarrow> if s \<noteq> [] then s else d)"

definition new_ZimbraBatchClient ::
  "string \<Rightarrow> string \<Rightarrow> string option \<Rightarrow> string option \<Rightarrow> 'h option \<Rightarrow> ('b, 'h) ZimbraBatchClient" where
  "new_ZimbraBatchClient DEFAULT_HOSTNAME DEFAULT_SOAP_PATHNAME zimbraOrigin soapPath handler =
     \<lparr>origin = or_else zimbraOrigin DEFAULT_HOSTNAME,
      sessionId = ''1'',
      soapPathname = or_else soapPath DEFAULT_SOAP_PATHNAME,
      batchDataLoader = new_DataLoader True,
      dataLoader = new_DataLoader False,
      notificationHandler = handler\<rparr>"

subsection \<open>The data handlers\<close>

text \<open>The call each handler makes when the loader hands it the keys of a dispatch.\<close>

definition batchDataHandler_request ::
  "('b, 'h) ZimbraBatchClient \<Rightarrow> 'b key list \<Rightarrow> 'b envelope" where
  "batchDataHandler_request this reqs =
     BatchJsonRequest (map snd reqs) (sessionId this) (origin this)"

definition dataHandler_request ::
  "('b, 'h) ZimbraBatchClient \<Rightarrow> 'b key list \<Rightarrow> 'b envelope" where
  "dataHandler_request this reqs =
     JsonRequest (case reqs of [] \<Rightarrow> None | r # _ \<Rightarrow> Some (snd r))
       (sessionId this) (origin this)"

text \<open>
  The \<^verbatim>\<open>then\<close> callbacks, run when the transport resolves: the new client, the
  effects in statement order, and how the callback ends. The registered notification
  handler is a function of the application: called with a block it returns
  (\<open>None\<close>) or throws an error value (\<open>Some e\<close>). A throw leaves the callback
  at the call, after the session was written, and the handler's promise rejects with
  what was thrown (\<open>Inl\<close>); otherwise the promise resolves with the array
  (\<open>Inr\<close>; in it an error value is \<open>Inl\<close>, a body \<open>Inr\<close>). The
  \<^verbatim>\<open>DEBUG\<close> branch is dead (\<^verbatim>\<open>DEBUG = false\<close>).
\<close>

definition batchDataHandler_then ::
  "('b, 'n \<Rightarrow> 'e option) ZimbraBatchClient \<Rightarrow> ('e, 'b, 'n) BatchRequestResponse \<Rightarrow>
     ('b, 'n \<Rightarrow> 'e option) ZimbraBatchClient \<times> ('e, 'b, 'n, 'n \<Rightarrow> 'e option) effect list \<times>
     ('e + ('e + 'b) list)" where
  "batchDataHandler_then this response =
     (let sid = session_id (header response);
          notifications = get_notify_0 (header response);
          (this1, fx1) =
            (case sid of
               Some s \<Rightarrow>
                 if truthy sid then (this\<lparr>sessionId := s\<rparr>, [SessionWrite s]) else (this, [])
             | None \<Rightarrow> (this, []));
          (fx2, thrown) =
            (case (notifications, notificationHandler this1) of
               (Some n, Some h) \<Rightarrow> ([Invoke h n], h n)
             | _ \<Rightarrow> ([], None))
      in (this1, fx1 @ fx2,
          case thrown of
            Some e \<Rightarrow> Inl e
          | None \<Rightarrow>
              Inr (map (\<lambda>r. case r of ErrorValue e \<Rightarrow> Inl e | ResponseValue b \<Rightarrow> Inr b)
                     (requests response))))"

definition dataHandler_then ::
  "('b, 'n \<Rightarrow> 'e option) ZimbraBatchClient \<Rightarrow> ('e, 'b, 'n) RequestResponse \<Rightarrow>
     ('b, 'n \<Rightarrow> 'e option) ZimbraBatchClient \<times> ('e, 'b, 'n, 'n \<Rightarrow> 'e option) effect list \<times>
     ('e + ('e + 'b) list)" where
  "dataHandler_then this response =
     (let sid = session_id (header_of response);
          notifications = get_notify_0 (header_of response);
          (this1, fx1) =
            (case sid of
               Some s \<Rightarrow>
                 if truthy sid then (this\<lparr>sessionId := s\<rparr>, [SessionWrite s]) else (this, [])
             | None \<Rightarrow> (this, []));
          (fx2, thrown) =
            (case (notifications, notificationHandler this1) of
               (Some n, Some h) \<Rightarrow> ([Invoke h n], h n)
             | _ \<Rightarrow> ([], None))
      in (this1, fx1 @ fx2,
          case thrown of
            Some e \<Rightarrow> Inl e
          | None \<Rightarrow> Inr [case response of ErrorResolved _ e \<Rightarrow> Inl e | Response _ b \<Rightarrow> Inr b]))"

subsection \<open>Loading, dispatching and settling\<close>

text \<open>
  \<^verbatim>\<open>load(key)\<close> of the loader: a key already in the cache gets the cached pending
  result and nothing is queued; otherwise a new pending result \<open>fresh\<close> is made,
  queued with the key and cached. The flag tells whether it was made.
\<close>

definition load :: "'b DataLoader \<Rightarrow> pid \<Rightarrow> 'b key \<Rightarrow> pid \<times> 'b DataLoader \<times> bool" where
  "load L fresh k =
     (case promiseCache L (fst k) of
        Some cached \<Rightarrow> (cached, L, False)
      | None \<Rightarrow>
          (fresh,
           L\<lparr>queue := queue L @ [(k, fresh)],
             promiseCache := (promiseCache L)(fst k \<mapsto> fresh)\<rparr>,
           True))"

definition dispatchQueue :: "'b DataLoader \<Rightarrow> 'b DataLoader \<times> ('b key \<times> pid) list" where
  "dispatchQueue L = (L\<lparr>queue := []\<rparr>, queue L)"

definition clear :: "'b DataLoader \<Rightarrow> 'b key \<Rightarrow> 'b DataLoader" where
  "clear L k = L\<lparr>promiseCache := (promiseCache L)(fst k := None)\<rparr>"

definition failedDispatch ::
  "'b DataLoader \<Rightarrow> ('b key \<times> pid) list \<Rightarrow> ('e, 'b) settlement \<Rightarrow>
     'b DataLoader \<times> ('e, 'b, 'n, 'h) effect list" where
  "failedDispatch L q err =
     (fold (\<lambda>kp L'. clear L' (fst kp)) q L, map (\<lambda>kp. Settle (snd kp) err) q)"

text \<open>
  What the loader does when the handler's promise settles: a rejection fails the whole
  dispatch; an array of another length than the keys fails it with a type error;
  otherwise the pending result at each position is rejected when the value there is an
  error and resolved with the value when not.
\<close>

definition dispatchQueueBatch_then ::
  "'b DataLoader \<Rightarrow> ('b key \<times> pid) list \<Rightarrow> 'e + ('e + 'b) list \<Rightarrow>
     'b DataLoader \<times> ('e, 'b, 'n, 'h) effect list" where
  "dispatchQueueBatch_then L q result =
     (case result of
        Inl e \<Rightarrow> failedDispatch L q (Rejected e)
      | Inr values \<Rightarrow>
          if length values \<noteq> length q then failedDispatch L q RejectedTypeError
          else (L, map (\<lambda>(kp, v). Settle (snd kp)
                          (case v of Inl e \<Rightarrow> Rejected e | Inr b \<Rightarrow> Resolved b))
                     (zip q values)))"

text \<open>
  A transport call settles: \<open>Inl\<close> when its promise rejects, \<open>Inr\<close> when it
  resolves. A rejection skips the handler's \<^verbatim>\<open>then\<close> callback and reaches the loader
  as it is; so does what the callback throws.
\<close>

definition on_batch_settled ::
  "('b, 'n \<Rightarrow> 'e option) ZimbraBatchClient \<Rightarrow> ('b key \<times> pid) list \<Rightarrow>
     'e + ('e, 'b, 'n) BatchRequestResponse \<Rightarrow>
     ('b, 'n \<Rightarrow> 'e option) ZimbraBatchClient \<times> ('e, 'b, 'n, 'n \<Rightarrow> 'e option) effect list" where
  "on_batch_settled this q outcome =
     (case outcome of
        Inl e \<Rightarrow>
          (let (L, fx) = dispatchQueueBatch_then (batchDataLoader this) q (Inl e)
           in (this\<lparr>batchDataLoader := L\<rparr>, fx))
      | Inr response \<Rightarrow>
          (let (this1, fx, result) = batchDataHandler_then this response;
               (L, fx') = dispatchQueueBatch_then (batchDataLoader this1) q result
           in (this1\<lparr>batchDataLoader := L\<rparr>, fx @ fx')))"

definition on_single_settled ::
  "('b, 'n \<Rightarrow> 'e option) ZimbraBatchClient \<Rightarrow> ('b key \<times> pid) list \<Rightarrow>
     'e + ('e, 'b, 'n) RequestResponse \<Rightarrow>
     ('b, 'n \<Rightarrow> 'e option) ZimbraBatchClient \<times> ('e, 'b, 'n, 'n \<Rightarrow> 'e option) effect list" where
  "on_single_settled this q outcome =
     (case outcome of
        Inl e \<Rightarrow>
          (let (L, fx) = dispatchQueueBatch_then (dataLoader this) q (Inl e)
           in (this\<lparr>dataLoader := L\<rparr>, fx))
      | Inr response \<Rightarrow>
          (let (this1, fx, result) = dataHandler_then this response;
               (L, fx') = dispatchQueueBatch_then (dataLoader this1) q result
           in (this1\<lparr>dataLoader := L\<rparr>, fx @ fx')))"

subsection \<open>The client at work\<close>

text \<open>
  The client together with what surrounds it: the number of pending results made so far
  (the next one gets this number) and the transport calls issued so far, oldest first,
  each with the queue entries waiting for it.
\<close>

record ('b, 'h) world =
  client :: "('b, 'h) ZimbraBatchClient"
  promises :: nat
  wire :: "('b envelope \<times> ('b key \<times> pid) list) list"

definition dispatch_batchDataLoader :: "('b, 'h) world \<Rightarrow> ('b, 'h) world" where
  "dispatch_batchDataLoader w =
     (let (L, q) = dispatchQueue (batchDataLoader (client w))
      in w\<lparr>client := (client w)\<lparr>batchDataLoader := L\<rparr>,
           wire := wire w @ [(batchDataHandler_request (client w) (map fst q), q)]\<rparr>)"

definition dispatch_dataLoader :: "('b, 'h) world \<Rightarrow> ('b, 'h) world" where
  "dispatch_dataLoader w =
     (let (L, q) = dispatchQueue (dataLoader (client w))
      in w\<lparr>client := (client w)\<lparr>dataLoader := L\<rparr>,
           wire := wire w @ [(dataHandler_request (client w) (map fst q), q)]\<rparr>)"

text \<open>
  \<^verbatim>\<open>this.batchDataLoader.load(options)\<close> and \<^verbatim>\<open>this.dataLoader.load(options)\<close>.
  When the queue has just become non-empty, a loader that batches schedules its dispatch
  for the end of the tick, and one that does not dispatches at once.
\<close>

definition batchDataLoader_load :: "('b, 'h) world \<Rightarrow> 'b key \<Rightarrow> pid \<times> ('b, 'h) world" where
  "batchDataLoader_load w k =
     (let (p, L, made) = load (batchDataLoader (client w)) (promises w) k;
          w1 = w\<lparr>client := (client w)\<lparr>batchDataLoader := L\<rparr>,
                 promises := (if made then Suc (promises w) else promises w)\<rparr>
      in (p, if made \<and> length (queue L) = 1 \<and> \<not> batch L
             then dispatch_batchDataLoader w1 else w1))"

definition dataLoader_load :: "('b, 'h) world \<Rightarrow> 'b key \<Rightarrow> pid \<times> ('b, 'h) world" where
  "dataLoader_load w k =
     (let (p, L, made) = load (dataLoader (client w)) (promises w) k;
          w1 = w\<lparr>client := (client w)\<lparr>dataLoader := L\<rparr>,
                 promises := (if made then Suc (promises w) else promises w)\<rparr>
      in (p, if made \<and> length (queue L) = 1 \<and> \<not> batch L
             then dispatch_dataLoader w1 else w1))"

definition jsonRequest :: "('b, 'h) world \<Rightarrow> 'b key \<Rightarrow> pid \<times> ('b, 'h) world" where
  "jsonRequest w options =
     (if truthy (accountName (snd options))
      then dataLoader_load w options
      else batchDataLoader_load w options)"

text \<open>Several submissions one after the other, with no dispatch job in between.\<close>

fun submit_all :: "('b, 'h) world \<Rightarrow> 'b key list \<Rightarrow> ('b, 'h) world" where
  "submit_all w [] = w"
| "submit_all w (k # ks) = submit_all (snd (jsonRequest w k)) ks"

text \<open>
  The end of the tick: the dispatch job of each loader that batches and has keys queued
  runs.
\<close>

definition endOfTick :: "('b, 'h) world \<Rightarrow> ('b, 'h) world" where
  "endOfTick w =
     (let w1 = (if batch (batchDataLoader (client w)) \<and> queue (batchDataLoader (client w)) \<noteq> []
                then dispatch_batchDataLoader w else w)
      in if batch (dataLoader (client w1)) \<and> queue (dataLoader (client w1)) \<noteq> []
         then dispatch_dataLoader w1 else w1)"

text \<open>The transport settles the \<open>i\<close>-th call it was given.\<close>

definition settles_batch ::
  "('b, 'n \<Rightarrow> 'e option) world \<Rightarrow> nat \<Rightarrow> 'e + ('e, 'b, 'n) BatchRequestResponse \<Rightarrow>
     ('b, 'n \<Rightarrow> 'e option) world \<times> ('e, 'b, 'n, 'n \<Rightarrow> 'e option) effect list" where
  "settles_batch w i outcome =
     (if i < length (wire w)
      then (let (c, fx) = on_batch_settled (client w) (snd (wire w ! i)) outcome
            in (w\<lparr>client := c\<rparr>, fx))
      else (w, []))"

definition settles_single ::
  "('b, 'n \<Rightarrow> 'e option) world \<Rightarrow> nat \<Rightarrow> 'e + ('e, 'b, 'n) RequestResponse \<Rightarrow>
     ('b, 'n \<Rightarrow> 'e option) world \<times> ('e, 'b, 'n, 'n \<Rightarrow> 'e option) effect list" where
  "settles_single w i outcome =
     (if i < length (wire w)
      then (let (c, fx) = on_single_settled (client w) (snd (wire w ! i)) outcome
            in (w\<lparr>client := c\<rparr>, fx))
      else (w, []))"

definition new_world :: "('b, 'h) ZimbraBatchClient \<Rightarrow> ('b, 'h) world" where
  "new_world c = \<lparr>client = c, promises = 0, wire = []\<rparr>"

text \<open>
  The loaders as the constructor sets them up: the first batches, the second does not,
  and the second, dispatching every key as it is loaded, has nothing queued between two
  calls.
\<close>

definition as_constructed :: "('b, 'h) world \<Rightarrow> bool" where
  "as_constructed w =
     (batch (batchDataLoader (client w)) \<and> \<not> batch (dataLoader (client w)) \<and>
      queue (dataLoader (client w)) = [])"

subsection \<open>Reading a callback and a trace\<close>

text \<open>
  What the registered handler throws when a callback relays the first block of a header
  to it: nothing when there is no truthy first block, no handler, or the handler returns.
\<close>

definition thrown_by :: "('b, 'n \<Rightarrow> 'e option) ZimbraBatchClient \<Rightarrow> 'n hdr \<Rightarrow> 'e option" where
  "thrown_by this h =
     (case (get_notify_0 h, notificationHandler this) of
        (Some n, Some f) \<Rightarrow> f n
      | _ \<Rightarrow> None)"


subsection \<open>Concrete inputs\<close>

text \<open>A client whose handler returns, and one whose handler throws.\<close>

definition example_client :: "(string, string \<Rightarrow> string option) ZimbraBatchClient" where
  "example_client =
     new_ZimbraBatchClient ''localhost'' ''/service/soap'' None None (Some (\<lambda>_. None))"

definition throwing_client :: "(string, string \<Rightarrow> string option) ZimbraBatchClient" where
  "throwing_client =
     new_ZimbraBatchClient ''localhost'' ''/service/soap'' None None
       (Some (\<lambda>_. Some ''handler failed''))"

definition request :: "string \<Rightarrow> string option \<Rightarrow> string JsonRequestOptions" where
  "request n a = \<lparr>name = n, namespace = None, body = None, accountName = a\<rparr>"

definition example_reply :: "(string, string, string) BatchRequestResponse" where
  "example_reply =
     \<lparr>header = \<lparr>session_id = Some ''s2'', notify = [Some ''n1'', Some ''n2'']\<rparr>,
      requests = [ResponseValue ''ok'', ErrorValue ''fault'']\<rparr>"

section \<open>Properties\<close>

subsection \<open>The callbacks and the loader in closed form\<close>

lemma batchDataHandler_then_eq:
  "batchDataHandler_then this response =
     ((case session_id (header response) of
         None \<Rightarrow> this
       | Some t \<Rightarrow> if t = [] then this else this\<lparr>sessionId := t\<rparr>),
      (case session_id (header response) of
         None \<Rightarrow> []
       | Some t \<Rightarrow> if t = [] then [] else [SessionWrite t]) @
      (case get_notify_0 (header response) of
         None \<Rightarrow> []
       | Some n \<Rightarrow> (case notificationHandler this of None \<Rightarrow> [] | Some h \<Rightarrow> [Invoke h n])),
      (case thrown_by this (header response) of
         Some e \<Rightarrow> Inl e
       | None \<Rightarrow>
           Inr (map (\<lambda>r. case r of ErrorValue e \<Rightarrow> Inl e | ResponseValue b \<Rightarrow> Inr b)
                  (requests response))))"
  by (simp add: batchDataHandler_then_def thrown_by_def truthy_def split: option.splits)

lemma dataHandler_then_eq:
  "dataHandler_then this response =
     ((case session_id (header_of response) of
         None \<Rightarrow> this
       | Some t \<Rightarrow> if t = [] then this else this\<lparr>sessionId := t\<rparr>),
      (case session_id (header_of response) of
         None \<Rightarrow> []
       | Some t \<Rightarrow> if t = [] then [] else [SessionWrite t]) @
      (case get_notify_0 (header_of response) of
         None \<Rightarrow> []
       | Some n \<Rightarrow> (case notificationHandler this of None \<Rightarrow> [] | Some h \<Rightarrow> [Invoke h n])),
      (case thrown_by this (header_of response) of
         Some e \<Rightarrow> Inl e
       | None \<Rightarrow> Inr [case response of ErrorResolved _ e \<Rightarrow> Inl e | Response _ b \<Rightarrow> Inr b]))"
  by (simp add: dataHandler_then_def thrown_by_def truthy_def split: option.splits)

lemma failedDispatch_effects:
  "snd (failedDispatch L q err) = map (\<lambda>kp. Settle (snd kp) err) q"
  by (simp add: failedDispatch_def)


lemma map_zip_by_index:
  "length ys = length xs \<Longrightarrow> map f (zip xs ys) = map (\<lambda>i. f (xs ! i, ys ! i)) [0..<length xs]"
  by (rule nth_equalityI) simp_all

lemma dispatchQueueBatch_then_Inr:
  "length values = length q \<Longrightarrow>
   dispatchQueueBatch_then L q (Inr values) =
     (L, map (\<lambda>i. Settle (snd (q ! i))
                 (case values ! i of Inl e \<Rightarrow> Rejected e | Inr b \<Rightarrow> Resolved b))
           [0..<length q])"
  by (simp add: dispatchQueueBatch_then_def map_zip_by_index)

lemma dispatchQueueBatch_then_mismatch:
  "length values \<noteq> length q \<Longrightarrow>
   snd (dispatchQueueBatch_then L q (Inr values)) = map (\<lambda>kp. Settle (snd kp) RejectedTypeError) q"
  by (simp add: dispatchQueueBatch_then_def failedDispatch_def)

lemma dispatchQueueBatch_then_all_Settle:
  "filter isSettle (snd (dispatchQueueBatch_then L q result)) = snd (dispatchQueueBatch_then L q result)"
  by (auto simp: dispatchQueueBatch_then_def failedDispatch_def filter_id_conv split: sum.splits)

lemma on_batch_settled_Inr_effects:
  "snd (on_batch_settled this q (Inr response)) =
     fst (snd (batchDataHandler_then this response)) @
     snd (dispatchQueueBatch_then (batchDataLoader this) q
            (snd (snd (batchDataHandler_then this response))))"
  by (simp add: on_batch_settled_def batchDataHandler_then_eq case_prod_beta
        dispatchQueueBatch_then_def failedDispatch_def split: option.splits sum.splits)

lemma on_batch_settled_sessionId:
  "sessionId (fst (on_batch_settled this q (Inr response))) =
     sessionId (fst (batchDataHandler_then this response))"
  by (simp add: on_batch_settled_def split: prod.splits)


lemma on_single_settled_sessionId:
  "sessionId (fst (on_single_settled this q (Inr response))) =
     sessionId (fst (dataHandler_then this response))"
  by (simp add: on_single_settled_def split: prod.splits)

lemma then_effects_not_Settle:
  "\<forall>x\<in>set (fst (snd (batchDataHandler_then this response))). \<not> isSettle x"
  "\<forall>x\<in>set (fst (snd (dataHandler_then this r))). \<not> isSettle x"
  by (auto simp: batchDataHandler_then_eq dataHandler_then_eq split: option.splits if_splits)

lemma then_effects_no_Settle:
  "filter isSettle (fst (snd (batchDataHandler_then this response))) = []"
  "filter isSettle (fst (snd (dataHandler_then this r))) = []"
  by (simp_all add: filter_empty_conv then_effects_not_Settle)

lemma dispatch_batchDataLoader_wire:
  "wire (dispatch_batchDataLoader w) =
     wire w @ [(BatchJsonRequest (map (snd \<circ> fst) (queue (batchDataLoader (client w))))
                  (sessionId (client w)) (origin (client w)),
                queue (batchDataLoader (client w)))]"
  by (simp add: dispatch_batchDataLoader_def dispatchQueue_def batchDataHandler_request_def)

lemma on_batch_settled_Inl:
  "snd (on_batch_settled this q (Inl e)) = map (\<lambda>kp. Settle (snd kp) (Rejected e)) q"
  "sessionId (fst (on_batch_settled this q (Inl e))) = sessionId this"
  by (simp_all add: on_batch_settled_def dispatchQueueBatch_then_def failedDispatch_def
        split: prod.splits)

lemma snd_settles_batch:
  "snd (settles_batch w i outcome) =
     (if i < length (wire w) then snd (on_batch_settled (client w) (snd (wire w ! i)) outcome)
      else [])"
  by (simp add: settles_batch_def case_prod_beta)

lemma client_dispatch_batchDataLoader:
  "client (dispatch_batchDataLoader w) = (client w)\<lparr>batchDataLoader := (batchDataLoader (client w))\<lparr>queue := []\<rparr>\<rparr>"
  by (simp add: dispatch_batchDataLoader_def dispatchQueue_def)






subsection \<open>The constructor's set-up is kept\<close>

lemma fold_clear_keeps:
  "batch (fold (\<lambda>kp L'. clear L' (fst kp)) q L) = batch L"
  "queue (fold (\<lambda>kp L'. clear L' (fst kp)) q L) = queue L"
  by (induction q arbitrary: L) (simp_all add: clear_def)

lemma dispatchQueueBatch_then_keeps:
  "batch (fst (dispatchQueueBatch_then L q result :: 'b DataLoader \<times> ('e, 'b, 'n, 'h) effect list)) = batch L"
  "queue (fst (dispatchQueueBatch_then L q result :: 'b DataLoader \<times> ('e, 'b, 'n, 'h) effect list)) = queue L"
  by (simp_all add: dispatchQueueBatch_then_def failedDispatch_def fold_clear_keeps
        split: sum.splits)

lemma then_keeps_loaders:
  "batchDataLoader (fst (batchDataHandler_then this response)) = batchDataLoader this"
  "dataLoader (fst (batchDataHandler_then this response)) = dataLoader this"
  "batchDataLoader (fst (dataHandler_then this r)) = batchDataLoader this"
  "dataLoader (fst (dataHandler_then this r)) = dataLoader this"
  by (simp_all add: batchDataHandler_then_eq dataHandler_then_eq split: option.splits)

lemma on_batch_settled_keeps:
  "batch (batchDataLoader (fst (on_batch_settled this q outcome))) = batch (batchDataLoader this)"
  "queue (batchDataLoader (fst (on_batch_settled this q outcome))) = queue (batchDataLoader this)"
  "dataLoader (fst (on_batch_settled this q outcome)) = dataLoader this"
  by (simp_all add: on_batch_settled_def case_prod_beta dispatchQueueBatch_then_keeps
        then_keeps_loaders split: sum.splits)

lemma on_single_settled_keeps:
  "batch (dataLoader (fst (on_single_settled this q outcome))) = batch (dataLoader this)"
  "queue (dataLoader (fst (on_single_settled this q outcome))) = queue (dataLoader this)"
  "batchDataLoader (fst (on_single_settled this q outcome)) = batchDataLoader this"
  by (simp_all add: on_single_settled_def case_prod_beta dispatchQueueBatch_then_keeps
        then_keeps_loaders split: sum.splits)

lemma as_constructed_new:
  "as_constructed (new_world (new_ZimbraBatchClient d1 d2 zo sp h))"
  by (simp add: as_constructed_def new_world_def new_ZimbraBatchClient_def new_DataLoader_def)

lemma as_constructed_jsonRequest:
  "as_constructed w \<Longrightarrow> as_constructed (snd (jsonRequest w k))"
  by (auto simp: as_constructed_def jsonRequest_def dataLoader_load_def batchDataLoader_load_def
        load_def Let_def dispatch_dataLoader_def dispatch_batchDataLoader_def dispatchQueue_def
        split: option.splits)

lemma as_constructed_endOfTick:
  "as_constructed w \<Longrightarrow> as_constructed (endOfTick w)"
  by (auto simp: as_constructed_def endOfTick_def Let_def dispatch_dataLoader_def
        dispatch_batchDataLoader_def dispatchQueue_def)

lemma as_constructed_settles_batch:
  "as_constructed w \<Longrightarrow> as_constructed (fst (settles_batch w i outcome))"
  by (simp add: as_constructed_def settles_batch_def case_prod_beta on_batch_settled_keeps)

lemma as_constructed_settles_single:
  "as_constructed w \<Longrightarrow> as_constructed (fst (settles_single w i outcome))"
  by (simp add: as_constructed_def settles_single_def case_prod_beta on_single_settled_keeps)

subsection \<open>Submissions, step by step\<close>

lemma on_batch_settled_origin:
  "origin (fst (on_batch_settled this q (Inr response))) = origin this"
  by (simp add: on_batch_settled_def batchDataHandler_then_eq case_prod_beta split: option.splits)

lemma on_single_settled_origin:
  "origin (fst (on_single_settled this q (Inr response))) = origin this"
  by (simp add: on_single_settled_def dataHandler_then_eq case_prod_beta split: option.splits)

lemma load_miss:
  "promiseCache L (fst k) = None \<Longrightarrow>
   load L p k =
     (p, L\<lparr>queue := queue L @ [(k, p)], promiseCache := (promiseCache L)(fst k \<mapsto> p)\<rparr>, True)"
  by (simp add: load_def)

lemma load_hit:
  "promiseCache L (fst k) = Some c \<Longrightarrow> load L p k = (c, L, False)"
  by (simp add: load_def)

lemma jsonRequest_unscoped_fresh:
  assumes "\<not> truthy (accountName (snd k))"
      and "batch (batchDataLoader (client w))"
      and "promiseCache (batchDataLoader (client w)) (fst k) = None"
  shows "jsonRequest w k =
     (promises w,
      w\<lparr>client := (client w)\<lparr>batchDataLoader :=
           (batchDataLoader (client w))
             \<lparr>queue := queue (batchDataLoader (client w)) @ [(k, promises w)],
              promiseCache := (promiseCache (batchDataLoader (client w)))(fst k \<mapsto> promises w)\<rparr>\<rparr>,
        promises := Suc (promises w)\<rparr>)"
  using assms by (simp add: jsonRequest_def batchDataLoader_load_def load_miss)

lemma jsonRequest_scoped_fresh:
  assumes "truthy (accountName (snd k))"
      and "\<not> batch (dataLoader (client w))"
      and "queue (dataLoader (client w)) = []"
      and "promiseCache (dataLoader (client w)) (fst k) = None"
  shows "jsonRequest w k =
     (promises w,
      w\<lparr>client := (client w)\<lparr>dataLoader :=
           (dataLoader (client w))
             \<lparr>promiseCache := (promiseCache (dataLoader (client w)))(fst k \<mapsto> promises w)\<rparr>\<rparr>,
        promises := Suc (promises w),
        wire := wire w @ [(JsonRequest (Some (snd k)) (sessionId (client w)) (origin (client w)),
                           [(k, promises w)])]\<rparr>)"
  using assms
  by (simp add: jsonRequest_def dataLoader_load_def load_miss dispatch_dataLoader_def
        dispatchQueue_def dataHandler_request_def)

lemma upt_shift:
  "[p..<Suc (p + n)] = p # [Suc p..<Suc (p + n)]"
  using upt_conv_Cons [of p "Suc (p + n)"] by (simp del: upt_Suc)

lemma submit_all_unscoped:
  assumes "\<forall>k\<in>set ks. \<not> truthy (accountName (snd k))"
      and "batch (batchDataLoader (client w))"
      and "distinct (map fst ks)"
      and "\<forall>k\<in>set ks. promiseCache (batchDataLoader (client w)) (fst k) = None"
  shows "queue (batchDataLoader (client (submit_all w ks))) =
           queue (batchDataLoader (client w)) @ zip ks [promises w..<promises w + length ks]
       \<and> batch (batchDataLoader (client (submit_all w ks)))
       \<and> wire (submit_all w ks) = wire w
       \<and> promises (submit_all w ks) = promises w + length ks
       \<and> sessionId (client (submit_all w ks)) = sessionId (client w)
       \<and> origin (client (submit_all w ks)) = origin (client w)
       \<and> dataLoader (client (submit_all w ks)) = dataLoader (client w)"
  using assms
proof (induction ks arbitrary: w)
  case Nil
  then show ?case by simp
next
  case (Cons k ks)
  define w1 where "w1 = snd (jsonRequest w k)"
  have step: "jsonRequest w k =
     (promises w,
      w\<lparr>client := (client w)\<lparr>batchDataLoader :=
           (batchDataLoader (client w))
             \<lparr>queue := queue (batchDataLoader (client w)) @ [(k, promises w)],
              promiseCache := (promiseCache (batchDataLoader (client w)))(fst k \<mapsto> promises w)\<rparr>\<rparr>,
        promises := Suc (promises w)\<rparr>)"
    using Cons.prems by (intro jsonRequest_unscoped_fresh) simp_all
  have sub: "submit_all w (k # ks) = submit_all w1 ks" by (simp add: w1_def)
  have q1: "queue (batchDataLoader (client w1)) = queue (batchDataLoader (client w)) @ [(k, promises w)]"
    and p1: "promises w1 = Suc (promises w)"
    and r1: "wire w1 = wire w"
    and s1: "sessionId (client w1) = sessionId (client w)"
    and o1: "origin (client w1) = origin (client w)"
    and d1: "dataLoader (client w1) = dataLoader (client w)"
    and c1: "promiseCache (batchDataLoader (client w1)) =
               (promiseCache (batchDataLoader (client w)))(fst k \<mapsto> promises w)"
    by (simp_all add: w1_def step)
  have a1: "\<forall>k\<in>set ks. \<not> truthy (accountName (snd k))" using Cons.prems by simp
  have a2: "batch (batchDataLoader (client w1))" using Cons.prems by (simp add: w1_def step)
  have a3: "distinct (map fst ks)" using Cons.prems by simp
  have ne: "fst k' \<noteq> fst k" if "k' \<in> set ks" for k'
  proof -
    have "fst k \<notin> fst ` set ks" using Cons.prems(3) by simp
    moreover have "fst k' \<in> fst ` set ks" using that by (rule imageI)
    ultimately show ?thesis by metis
  qed
  have a4: "\<forall>k'\<in>set ks. promiseCache (batchDataLoader (client w1)) (fst k') = None"
    using Cons.prems(4) ne by (simp add: c1)
  note IH = Cons.IH [OF a1 a2 a3 a4]
  show ?case
    unfolding sub using IH by (simp add: q1 p1 r1 s1 o1 d1 upt_shift del: upt_Suc)
qed

lemma submit_all_scoped:
  assumes "\<forall>k\<in>set ks. truthy (accountName (snd k))"
      and "\<not> batch (dataLoader (client w))"
      and "queue (dataLoader (client w)) = []"
      and "distinct (map fst ks)"
      and "\<forall>k\<in>set ks. promiseCache (dataLoader (client w)) (fst k) = None"
  shows "wire (submit_all w ks) =
           wire w @ map (\<lambda>kp. (JsonRequest (Some (snd (fst kp))) (sessionId (client w))
                                   (origin (client w)), [kp]))
                      (zip ks [promises w..<promises w + length ks])
       \<and> queue (dataLoader (client (submit_all w ks))) = []
       \<and> \<not> batch (dataLoader (client (submit_all w ks)))
       \<and> promises (submit_all w ks) = promises w + length ks
       \<and> sessionId (client (submit_all w ks)) = sessionId (client w)
       \<and> origin (client (submit_all w ks)) = origin (client w)
       \<and> batchDataLoader (client (submit_all w ks)) = batchDataLoader (client w)"
  using assms
proof (induction ks arbitrary: w)
  case Nil
  then show ?case by simp
next
  case (Cons k ks)
  define w1 where "w1 = snd (jsonRequest w k)"
  have step: "jsonRequest w k =
     (promises w,
      w\<lparr>client := (client w)\<lparr>dataLoader :=
           (dataLoader (client w))
             \<lparr>promiseCache := (promiseCache (dataLoader (client w)))(fst k \<mapsto> promises w)\<rparr>\<rparr>,
        promises := Suc (promises w),
        wire := wire w @ [(JsonRequest (Some (snd k)) (sessionId (client w)) (origin (client w)),
                           [(k, promises w)])]\<rparr>)"
    using Cons.prems by (intro jsonRequest_scoped_fresh) simp_all
  have sub: "submit_all w (k # ks) = submit_all w1 ks" by (simp add: w1_def)
  have q1: "queue (dataLoader (client w1)) = []"
    and p1: "promises w1 = Suc (promises w)"
    and r1: "wire w1 = wire w @ [(JsonRequest (Some (snd k)) (sessionId (client w))
                                    (origin (client w)), [(k, promises w)])]"
    and s1: "sessionId (client w1) = sessionId (client w)"
    and o1: "origin (client w1) = origin (client w)"
    and d1: "batchDataLoader (client w1) = batchDataLoader (client w)"
    and c1: "promiseCache (dataLoader (client w1)) =
               (promiseCache (dataLoader (client w)))(fst k \<mapsto> promises w)"
    using Cons.prems(3) by (simp_all add: w1_def step)
  have a1: "\<forall>k\<in>set ks. truthy (accountName (snd k))" using Cons.prems by simp
  have a2: "\<not> batch (dataLoader (client w1))" using Cons.prems by (simp add: w1_def step)
  have a4: "distinct (map fst ks)" using Cons.prems by simp
  have ne: "fst k' \<noteq> fst k" if "k' \<in> set ks" for k'
  proof -
    have "fst k \<notin> fst ` set ks" using Cons.prems(4) by simp
    moreover have "fst k' \<in> fst ` set ks" using that by (rule imageI)
    ultimately show ?thesis by metis
  qed
  have a5: "\<forall>k'\<in>set ks. promiseCache (dataLoader (client w1)) (fst k') = None"
    using Cons.prems(5) ne by (simp add: c1)
  note IH = Cons.IH [OF a1 a2 q1 a4 a5]
  show ?case
    unfolding sub using IH by (simp add: p1 r1 s1 o1 d1 upt_shift del: upt_Suc)
qed

lemma endOfTick_batch_only:
  assumes "batch (batchDataLoader (client w))" and "\<not> batch (dataLoader (client w))"
      and "queue (batchDataLoader (client w)) \<noteq> []"
  shows "endOfTick w = dispatch_batchDataLoader w"
  using assms by (simp add: endOfTick_def client_dispatch_batchDataLoader)

lemma dispatch_frames:
  "batchDataLoader (client (dispatch_dataLoader w)) = batchDataLoader (client w)"
  "dataLoader (client (dispatch_batchDataLoader w)) = dataLoader (client w)"
  by (simp_all add: dispatch_dataLoader_def dispatch_batchDataLoader_def dispatchQueue_def)

lemma dataLoader_load_frame:
  "batchDataLoader (client (snd (dataLoader_load w k))) = batchDataLoader (client w)"
  by (simp add: dataLoader_load_def load_def Let_def dispatch_frames split: option.splits)

lemma batchDataLoader_load_frame:
  "dataLoader (client (snd (batchDataLoader_load w k))) = dataLoader (client w)"
  by (simp add: batchDataLoader_load_def load_def Let_def dispatch_frames split: option.splits)

lemmas run_defs =
  jsonRequest_def batchDataLoader_load_def dataLoader_load_def load_def endOfTick_def
  dispatch_batchDataLoader_def dispatch_dataLoader_def dispatchQueue_def
  batchDataHandler_request_def dataHandler_request_def new_world_def example_client_def
  new_ZimbraBatchClient_def new_DataLoader_def request_def truthy_def or_else_def

lemmas settle_defs =
  settles_batch_def on_batch_settled_def batchDataHandler_then_def get_notify_0_def
  dispatchQueueBatch_then_def failedDispatch_def clear_def

subsection \<open>Demultiplexing a batch reply\<close>

text \<open>
  C1, as amended. When the notification handler does not throw in the callback of a
  batch, the array the batch data handler resolves with has the length and the order of
  the reply's request list: an error value stays, a response gives its body. When that
  list has the length of the request list handed to the handler, the pending result of
  the caller at each position is rejected with the element of the reply at that position
  when that element is an error value, and resolved with its body when it is not; when
  the lengths differ, every caller is rejected with the loader's type error.
\<close>

theorem batch_results_follow_positions:
  assumes "thrown_by this (header response) = None"
  shows "snd (snd (batchDataHandler_then this response)) =
           Inr (map (\<lambda>r. case r of ErrorValue e \<Rightarrow> Inl e | ResponseValue b \<Rightarrow> Inr b)
                  (requests response))
       \<and> filter isSettle (snd (on_batch_settled this q (Inr response))) =
           (if length (requests response) = length q
            then map (\<lambda>i. Settle (snd (q ! i))
                        (case requests response ! i of
                           ErrorValue e \<Rightarrow> Rejected e
                         | ResponseValue b \<Rightarrow> Resolved b))
                   [0..<length q]
            else map (\<lambda>kp. Settle (snd kp) RejectedTypeError) q)
       \<and> map isRejection (filter isSettle (snd (on_batch_settled this q (Inr response)))) =
           (if length (requests response) = length q
            then map isError (requests response)
            else map (\<lambda>kp. True) q)"
proof -
  let ?d = "\<lambda>r. case r of ErrorValue e \<Rightarrow> Inl e | ResponseValue b \<Rightarrow> Inr b"
  let ?s = "\<lambda>i. Settle (snd (q ! i))
        (case requests response ! i of ErrorValue e \<Rightarrow> Rejected e | ResponseValue b \<Rightarrow> Resolved b)"
  have vals: "snd (snd (batchDataHandler_then this response)) = Inr (map ?d (requests response))"
    using assms by (simp add: batchDataHandler_then_eq)
  have fx: "filter isSettle (snd (on_batch_settled this q (Inr response))) =
      snd (dispatchQueueBatch_then (batchDataLoader this) q (Inr (map ?d (requests response))))"
    by (simp add: on_batch_settled_Inr_effects then_effects_no_Settle
          dispatchQueueBatch_then_all_Settle vals)
  show ?thesis
  proof (cases "length (requests response) = length q")
    case True
    have "snd (dispatchQueueBatch_then (batchDataLoader this) q (Inr (map ?d (requests response)))) =
        map (\<lambda>i. Settle (snd (q ! i))
          (case map ?d (requests response) ! i of Inl e \<Rightarrow> Rejected e | Inr b \<Rightarrow> Resolved b))
          [0..<length q]"
      using True by (simp add: dispatchQueueBatch_then_Inr)
    also have "\<dots> = map ?s [0..<length q]"
      using True by (auto split: item.splits)
    finally have second:
      "filter isSettle (snd (on_batch_settled this q (Inr response))) = map ?s [0..<length q]"
      using fx by simp
    have "map isRejection (map ?s [0..<length q]) =
        map (\<lambda>i. isError (requests response ! i)) [0..<length q]"
      by (auto split: item.splits)
    also have "\<dots> = map isError (requests response)"
      using True by (intro nth_equalityI) simp_all
    finally have third: "map isRejection (map ?s [0..<length q]) = map isError (requests response)" .
    show ?thesis using True vals second third by simp
  next
    case False
    have "filter isSettle (snd (on_batch_settled this q (Inr response))) =
        map (\<lambda>kp. Settle (snd kp) RejectedTypeError) q"
      using False by (simp add: fx dispatchQueueBatch_then_mismatch)
    then show ?thesis using False vals by simp
  qed
qed

theorem batch_results_follow_positions_witness:
  "thrown_by example_client (header example_reply) = None
   \<and> snd (snd (batchDataHandler_then example_client example_reply)) =
       Inr [Inr ''ok'', Inl ''fault'']
   \<and> filter isSettle
       (snd (on_batch_settled example_client
          [((0, request ''NoOp'' None), 0), ((1, request ''GetInfo'' None), 1)]
          (Inr example_reply))) =
     [Settle 0 (Resolved ''ok''), Settle 1 (Rejected ''fault'')]"
proof -
  have ok: "thrown_by example_client (header example_reply) = None"
    by (simp add: thrown_by_def example_client_def new_ZimbraBatchClient_def example_reply_def
          get_notify_0_def)
  have two: "[0..<Suc (Suc 0)] = [0, Suc 0]" by (simp add: upt_rec)
  show ?thesis
    using ok batch_results_follow_positions [OF ok,
        where q = "[((0, request ''NoOp'' None), 0), ((1, request ''GetInfo'' None), 1)]"]
    by (simp add: example_reply_def two)
qed

text \<open>
  C1 as stated fails in two ways. A registered handler that throws on the first block
  leaves the callback before the array is built, and the caller whose element is a
  response is rejected with what the handler threw. And a reply with one element for a
  batch of two gives an array of one element, and both callers are rejected.
\<close>

theorem throwing_handler_rejects_a_response:
  "\<not> isError (ResponseValue ''ok'' :: (string, string) item)
   \<and> filter isSettle
       (snd (on_batch_settled throwing_client [((0, request ''NoOp'' None), 0)]
          (Inr \<lparr>header = \<lparr>session_id = None, notify = [Some ''n1'']\<rparr>,
                requests = [ResponseValue ''ok'']\<rparr>))) =
     [Settle 0 (Rejected ''handler failed'')]
   \<and> snd (snd (batchDataHandler_then example_client
        \<lparr>header = \<lparr>session_id = None, notify = []\<rparr>,
          requests = [ResponseValue ''ok'' :: (string, string) item]\<rparr>)) = Inr [Inr ''ok'']
   \<and> filter isSettle
       (snd (on_batch_settled example_client
          [((0, request ''NoOp'' None), 0), ((1, request ''GetInfo'' None), 1)]
          (Inr \<lparr>header = \<lparr>session_id = None, notify = []\<rparr>,
                requests = [ResponseValue ''ok'']\<rparr>))) =
     [Settle 0 RejectedTypeError, Settle 1 RejectedTypeError]"
  by (simp add: on_batch_settled_def batchDataHandler_then_def get_notify_0_def truthy_def
        dispatchQueueBatch_then_def failedDispatch_def throwing_client_def example_client_def
        new_ZimbraBatchClient_def)

subsection \<open>Routing\<close>

text \<open>
  C2. Whatever the state of the client and whatever was requested before, a request goes
  to the single-call loader when its options carry a non-empty \<^verbatim>\<open>accountName\<close> and
  to the batch loader when they carry none or the empty string; and each loader leaves
  the other one as it was.
\<close>

theorem jsonRequest_routes_by_accountName:
  "jsonRequest w options =
     (if accountName (snd options) = None \<or> accountName (snd options) = Some []
      then batchDataLoader_load w options
      else dataLoader_load w options)
   \<and> batchDataLoader (client (snd (dataLoader_load w options))) = batchDataLoader (client w)
   \<and> dataLoader (client (snd (batchDataLoader_load w options))) = dataLoader (client w)"
  by (auto simp: jsonRequest_def truthy_def dataLoader_load_frame batchDataLoader_load_frame
        split: option.splits)

subsection \<open>A transport call that fails\<close>

text \<open>
  C3. When the transport call of a batch rejects, the \<^verbatim>\<open>then\<close> callback of the
  handler does not run: every entry of the dispatched queue (the callers whose requests
  the envelope carried) is rejected with that same failure, nobody is resolved, and the
  session is as it was.
\<close>

theorem transport_failure_rejects_every_caller:
  "snd (on_batch_settled this q (Inl e)) = map (\<lambda>kp. Settle (snd kp) (Rejected e)) q
   \<and> sessionId (fst (on_batch_settled this q (Inl e))) = sessionId this
   \<and> wire (dispatch_batchDataLoader w) =
       wire w @ [(BatchJsonRequest (map (snd \<circ> fst) (queue (batchDataLoader (client w))))
                    (sessionId (client w)) (origin (client w)),
                  queue (batchDataLoader (client w)))]
   \<and> snd (settles_batch (dispatch_batchDataLoader w) (length (wire w)) (Inl e)) =
       map (\<lambda>kp. Settle (snd kp) (Rejected e)) (queue (batchDataLoader (client w)))"
  by (simp add: on_batch_settled_Inl dispatch_batchDataLoader_wire snd_settles_batch)

subsection \<open>Session and notification come before the results\<close>


subsection \<open>The session a later call carries\<close>

text \<open>
  C5, as amended. When a call (batch or single) completes with a reply whose session
  token is a non-empty string, a call the client issues next, on either path, carries
  that token: the handlers read the session when they are called.
\<close>

theorem next_call_carries_nonempty_token:
  fixes rs :: "('e, 'b) item list"
  assumes "session_id h = Some t" and "t \<noteq> []"
  shows "batchDataHandler_request
           (fst (on_batch_settled this q (Inr \<lparr>header = h, requests = rs\<rparr>))) reqs =
           BatchJsonRequest (map snd reqs) t (origin this)
       \<and> dataHandler_request
           (fst (on_batch_settled this q (Inr \<lparr>header = h, requests = rs\<rparr>))) reqs =
           JsonRequest (case reqs of [] \<Rightarrow> None | r # _ \<Rightarrow> Some (snd r)) t (origin this)
       \<and> batchDataHandler_request
           (fst (on_single_settled this q
              (Inr (Response h b) :: 'e + ('e, 'b, 'n) RequestResponse))) reqs =
           BatchJsonRequest (map snd reqs) t (origin this)
       \<and> dataHandler_request
           (fst (on_single_settled this q
              (Inr (Response h b) :: 'e + ('e, 'b, 'n) RequestResponse))) reqs =
           JsonRequest (case reqs of [] \<Rightarrow> None | r # _ \<Rightarrow> Some (snd r)) t (origin this)"
  using assms
  by (simp add: batchDataHandler_request_def dataHandler_request_def on_batch_settled_origin
        on_single_settled_origin on_batch_settled_sessionId on_single_settled_sessionId
        batchDataHandler_then_eq dataHandler_then_eq)

theorem next_call_carries_nonempty_token_witness:
  "batchDataHandler_request
     (fst (on_batch_settled example_client [((0, request ''NoOp'' None), 0)]
        (Inr (\<lparr>header = \<lparr>session_id = Some ''s2'', notify = []\<rparr>,
               requests = [ResponseValue ''ok'']\<rparr>
              :: (string, string, string) BatchRequestResponse))))
     [(1, request ''NoOp'' None)] =
     BatchJsonRequest [request ''NoOp'' None] ''s2'' ''localhost''
   \<and> map fst (wire (endOfTick (submit_all
        (fst (settles_batch
           (endOfTick (submit_all (new_world example_client) [(0, request ''NoOp'' None)])) 0
           (Inr (\<lparr>header = \<lparr>session_id = Some ''s2'', notify = []\<rparr>,
                  requests = [ResponseValue ''ok'']\<rparr>
                 :: (string, string, string) BatchRequestResponse))))
        [(1, request ''NoOp'' None)]))) =
     [BatchJsonRequest [request ''NoOp'' None] ''1'' ''localhost'',
      BatchJsonRequest [request ''NoOp'' None] ''s2'' ''localhost'']"
proof -
  have h1: "session_id \<lparr>session_id = Some ''s2'', notify = ([] :: string option list)\<rparr> = Some ''s2''"
    by simp
  have h2: "''s2'' \<noteq> []" by simp
  have scenario: "map fst (wire (endOfTick (submit_all
        (fst (settles_batch
           (endOfTick (submit_all (new_world example_client) [(0, request ''NoOp'' None)])) 0
           (Inr (\<lparr>header = \<lparr>session_id = Some ''s2'', notify = []\<rparr>,
                  requests = [ResponseValue ''ok'']\<rparr>
                 :: (string, string, string) BatchRequestResponse))))
        [(1, request ''NoOp'' None)]))) =
     [BatchJsonRequest [request ''NoOp'' None] ''1'' ''localhost'',
      BatchJsonRequest [request ''NoOp'' None] ''s2'' ''localhost'']"
    by (simp add: run_defs settle_defs)
  have o: "origin example_client = ''localhost''"
    by (simp add: example_client_def new_ZimbraBatchClient_def or_else_def)
  show ?thesis
    using next_call_carries_nonempty_token [OF h1 h2,
        where this = example_client and q = "[((0, request ''NoOp'' None), 0)]"
          and rs = "[ResponseValue ''ok''] :: (string, string) item list" and reqs = "[(1, request ''NoOp'' None)]"
          and b = "''ok''"]
      scenario
    by (simp add: o)
qed

text \<open>
  C5 as stated fails when the token of the first reply is the empty string: of two
  batches sent one after the other, the second carries the placeholder again.
\<close>

theorem empty_token_leaves_the_placeholder:
  "map fst (wire (endOfTick (submit_all
        (fst (settles_batch
           (endOfTick (submit_all (new_world example_client) [(0, request ''NoOp'' None)])) 0
           (Inr (\<lparr>header = \<lparr>session_id = Some [], notify = []\<rparr>,
                  requests = [ResponseValue ''ok'']\<rparr>
                 :: (string, string, string) BatchRequestResponse))))
        [(1, request ''NoOp'' None)]))) =
     [BatchJsonRequest [request ''NoOp'' None] ''1'' ''localhost'',
      BatchJsonRequest [request ''NoOp'' None] ''1'' ''localhost'']"
  by (simp add: run_defs settle_defs)

subsection \<open>The session update and its frame\<close>

text \<open>
  C6, as amended. When a call completes (on the batch path or the single one, where
  the value resolved may be a response or an error value), the client is the client
  before with its session replaced by the token read from the value when that token is a
  non-empty string, and it is the client before, unchanged, when there is no token or an
  empty one. No other field changes.
\<close>

theorem session_replaced_by_nonempty_token:
  "fst (batchDataHandler_then this response) =
     (case session_id (header response) of
        None \<Rightarrow> this
      | Some t \<Rightarrow> if t = [] then this else this\<lparr>sessionId := t\<rparr>)
   \<and> fst (dataHandler_then this resolved) =
       (case session_id (header_of resolved) of
          None \<Rightarrow> this
        | Some t \<Rightarrow> if t = [] then this else this\<lparr>sessionId := t\<rparr>)"
  by (simp add: batchDataHandler_then_eq dataHandler_then_eq)

text \<open>
  C6 as stated fails on a reply whose session id is the empty string: the envelope
  carries an id, the test \<^verbatim>\<open>if (sessionId)\<close> is false for it, and the session stays
  the placeholder.
\<close>

theorem empty_session_id_is_not_installed:
  "session_id (header \<lparr>header = \<lparr>session_id = Some [], notify = []\<rparr>, requests = []\<rparr>) = Some []
   \<and> sessionId (fst (batchDataHandler_then example_client
        (\<lparr>header = \<lparr>session_id = Some [], notify = []\<rparr>, requests = []\<rparr>
           :: (string, string, string) BatchRequestResponse))) = ''1''
   \<and> sessionId (fst (batchDataHandler_then example_client
        (\<lparr>header = \<lparr>session_id = Some [], notify = []\<rparr>, requests = []\<rparr>
           :: (string, string, string) BatchRequestResponse))) \<noteq> []"
  by (simp add: batchDataHandler_then_eq example_client_def new_ZimbraBatchClient_def)

subsection \<open>One accumulation window\<close>

text \<open>
  C7, as amended. On a client set up by its constructor, unscoped requests submitted in
  one window, each with an options object of its own that the batch loader has not seen
  before, issue no call while the window is open; at the end of the tick one batch call
  goes out whose request list is the requests already queued followed by the submitted
  ones in arrival order, each at its own position with its own pending result. Nothing
  is asked of the contents: requests equal in content are not merged, identity is by
  reference.
\<close>

theorem unscoped_submissions_fill_one_batch:
  assumes "as_constructed w"
      and "\<forall>k\<in>set ks. \<not> truthy (accountName (snd k))"
      and "distinct (map fst ks)"
      and "\<forall>k\<in>set ks. promiseCache (batchDataLoader (client w)) (fst k) = None"
      and "ks \<noteq> []"
  shows "wire (submit_all w ks) = wire w
       \<and> wire (endOfTick (submit_all w ks)) =
           wire w @
           [(BatchJsonRequest
               (map (snd \<circ> fst) (queue (batchDataLoader (client w))) @ map snd ks)
               (sessionId (client w)) (origin (client w)),
             queue (batchDataLoader (client w)) @ zip ks [promises w..<promises w + length ks])]"
proof -
  let ?w' = "submit_all w ks"
  have b0: "batch (batchDataLoader (client w))" and d0: "\<not> batch (dataLoader (client w))"
    using assms(1) by (simp_all add: as_constructed_def)
  note acc = submit_all_unscoped [OF assms(2) b0 assms(3,4)]
  have q: "queue (batchDataLoader (client ?w')) =
      queue (batchDataLoader (client w)) @ zip ks [promises w..<promises w + length ks]"
    using acc by simp
  have ne: "queue (batchDataLoader (client ?w')) \<noteq> []"
    using assms(5) by (simp add: q)
  have b: "batch (batchDataLoader (client ?w'))" using acc by simp
  have d: "\<not> batch (dataLoader (client ?w'))" using acc d0 by simp
  have e: "endOfTick ?w' = dispatch_batchDataLoader ?w'"
    using b d ne by (rule endOfTick_batch_only)
  have m: "map (snd \<circ> fst) (zip ks [promises w..<promises w + length ks]) = map snd ks"
    by (simp add: map_fst_zip flip: map_map)
  show ?thesis
    using acc by (simp add: e dispatch_batchDataLoader_wire m del: upt_Suc)
qed

theorem unscoped_submissions_fill_one_batch_witness:
  "wire (endOfTick (submit_all (new_world example_client)
      [(0, request ''NoOp'' None), (1, request ''NoOp'' None)])) =
     [(BatchJsonRequest [request ''NoOp'' None, request ''NoOp'' None] ''1'' ''localhost'',
       [((0, request ''NoOp'' None), 0), ((1, request ''NoOp'' None), 1)])]"
proof -
  let ?ks = "[(0::nat, request ''NoOp'' None), (1, request ''NoOp'' None)]"
  let ?w = "new_world example_client :: (string, string \<Rightarrow> string option) world"
  have h1: "as_constructed ?w"
    unfolding example_client_def by (rule as_constructed_new)
  have h2: "\<forall>k\<in>set ?ks. \<not> truthy (accountName (snd k))"
    by (simp add: request_def truthy_def)
  have h3: "distinct (map fst ?ks)" by simp
  have h4: "\<forall>k\<in>set ?ks. promiseCache (batchDataLoader (client ?w)) (fst k) = None"
    by (simp add: new_world_def example_client_def new_ZimbraBatchClient_def new_DataLoader_def)
  have h5: "?ks \<noteq> []" by simp
  have two: "[0..<Suc (Suc 0)] = [0, Suc 0]" by (simp add: upt_rec)
  show ?thesis
    using unscoped_submissions_fill_one_batch [OF h1 h2 h3 h4 h5]
    by (simp add: new_world_def example_client_def new_ZimbraBatchClient_def
          new_DataLoader_def or_else_def two)
qed

text \<open>
  C7 as stated fails when the same options object is submitted twice: the loader's cache
  answers the second submission with the pending result of the first, and the batch has
  one position for the two submissions.
\<close>

theorem resubmitted_object_shares_one_position:
  "wire (endOfTick (submit_all (new_world example_client)
      [(0, request ''NoOp'' None), (0, request ''NoOp'' None)])) =
     [(BatchJsonRequest [request ''NoOp'' None] ''1'' ''localhost'',
       [((0, request ''NoOp'' None), 0)])]
   \<and> fst (jsonRequest (snd (jsonRequest (new_world example_client) (0, request ''NoOp'' None)))
           (0, request ''NoOp'' None)) =
     fst (jsonRequest (new_world example_client :: (string, string \<Rightarrow> string option) world)
           (0, request ''NoOp'' None))"
  by (simp add: run_defs)

subsection \<open>Scoped requests\<close>

text \<open>
  C8, as amended. On a client set up by its constructor, account-scoped requests, each
  with an options object of its own that the single-call loader has not seen before,
  issue one transport call each at the moment they are submitted; the call carries that
  one request and has that one caller waiting; nothing stays queued and the batch loader
  is not touched.
\<close>

theorem scoped_requests_get_one_call_each:
  assumes "as_constructed w"
      and "\<forall>k\<in>set ks. truthy (accountName (snd k))"
      and "distinct (map fst ks)"
      and "\<forall>k\<in>set ks. promiseCache (dataLoader (client w)) (fst k) = None"
  shows "wire (submit_all w ks) =
           wire w @ map (\<lambda>kp. (JsonRequest (Some (snd (fst kp))) (sessionId (client w))
                                   (origin (client w)), [kp]))
                      (zip ks [promises w..<promises w + length ks])
       \<and> queue (dataLoader (client (submit_all w ks))) = []
       \<and> batchDataLoader (client (submit_all w ks)) = batchDataLoader (client w)"
proof -
  have d0: "\<not> batch (dataLoader (client w))" and q0: "queue (dataLoader (client w)) = []"
    using assms(1) by (simp_all add: as_constructed_def)
  show ?thesis
    using submit_all_scoped [OF assms(2) d0 q0 assms(3,4)] by simp
qed

theorem scoped_requests_get_one_call_each_witness:
  "wire (submit_all (new_world example_client)
      [(0, request ''CreateAppointment'' (Some ''b'')),
       (1, request ''CreateAppointment'' (Some ''b''))]) =
     [(JsonRequest (Some (request ''CreateAppointment'' (Some ''b''))) ''1'' ''localhost'',
       [((0, request ''CreateAppointment'' (Some ''b'')), 0)]),
      (JsonRequest (Some (request ''CreateAppointment'' (Some ''b''))) ''1'' ''localhost'',
       [((1, request ''CreateAppointment'' (Some ''b'')), 1)])]"
proof -
  let ?ks = "[(0::nat, request ''CreateAppointment'' (Some ''b'')),
              (1, request ''CreateAppointment'' (Some ''b''))]"
  let ?w = "new_world example_client :: (string, string \<Rightarrow> string option) world"
  have h1: "as_constructed ?w"
    unfolding example_client_def by (rule as_constructed_new)
  have h2: "\<forall>k\<in>set ?ks. truthy (accountName (snd k))"
    by (simp add: request_def truthy_def)
  have h3: "distinct (map fst ?ks)" by simp
  have h4: "\<forall>k\<in>set ?ks. promiseCache (dataLoader (client ?w)) (fst k) = None"
    by (simp add: new_world_def example_client_def new_ZimbraBatchClient_def new_DataLoader_def)
  have two: "[0..<Suc (Suc 0)] = [0, Suc 0]" by (simp add: upt_rec)
  show ?thesis
    using scoped_requests_get_one_call_each [OF h1 h2 h3 h4]
    by (simp add: new_world_def example_client_def new_ZimbraBatchClient_def
          new_DataLoader_def or_else_def two)
qed

text \<open>
  C8 as stated fails when the same options object is submitted twice: the second
  submission gets the cached pending result and no transport call of its own.
\<close>

theorem resubmitted_scoped_object_issues_no_call:
  "wire (submit_all (new_world example_client)
      [(0, request ''CreateAppointment'' (Some ''b'')),
       (0, request ''CreateAppointment'' (Some ''b''))]) =
     [(JsonRequest (Some (request ''CreateAppointment'' (Some ''b''))) ''1'' ''localhost'',
       [((0, request ''CreateAppointment'' (Some ''b'')), 0)])]"
  by (simp add: run_defs)

subsection \<open>Notification blocks\<close>



subsection \<open>The single-call handler and its one request\<close>


end
